theory Spec2Isabelle
  imports Main "HOL-Library.Word"
begin

unbundle bit_operations_syntax

section \<open>Data model of the STUN attribute core (errors.go)\<close>

text \<open>
  Go strings are byte sequences and are modelled as \<^typ>\<open>string\<close>; a \<^verbatim>\<open>[]byte\<close> is a list
  of 8-bit words, the \<^verbatim>\<open>nil\<close> slice being the empty list (the code only takes \<^verbatim>\<open>len\<close> of
  slices, ranges over them and indexes them, and these agree on \<^verbatim>\<open>nil\<close> and on an empty
  slice).
\<close>

type_synonym byte = "8 word"

subsection \<open>Constant errors\<close>

text \<open>\<^verbatim>\<open>type Error string\<close>, with \<^verbatim>\<open>func (e Error) Error() string { return string(e) }\<close>.\<close>

datatype Error = Error string

fun Error_Error :: "Error \<Rightarrow> string" where
  "Error_Error (Error s) = s"

subsection \<open>Decode errors\<close>

record DecodeErrPlace =
  Parent :: string
  Children :: string

record DecodeErr =
  Place :: DecodeErrPlace
  Message :: string

definition DecodeErr_IsInvalidCookie :: "DecodeErr \<Rightarrow> bool" where
  "DecodeErr_IsInvalidCookie e =
     (Place e = \<lparr>Parent = ''message'', Children = ''cookie''\<rparr>)"

definition DecodeErr_IsPlaceParent :: "DecodeErr \<Rightarrow> string \<Rightarrow> bool" where
  "DecodeErr_IsPlaceParent e p = (Parent (Place e) = p)"

definition DecodeErr_IsPlaceChildren :: "DecodeErr \<Rightarrow> string \<Rightarrow> bool" where
  "DecodeErr_IsPlaceChildren e c = (Children (Place e) = c)"

definition DecodeErr_IsPlace :: "DecodeErr \<Rightarrow> DecodeErrPlace \<Rightarrow> bool" where
  "DecodeErr_IsPlace e p = (Place e = p)"

definition DecodeErrPlace_String :: "DecodeErrPlace \<Rightarrow> string" where
  "DecodeErrPlace_String p = Parent p @ ''/'' @ Children p"

definition DecodeErr_Error :: "DecodeErr \<Rightarrow> string" where
  "DecodeErr_Error e =
     ''BadFormat for '' @ DecodeErrPlace_String (Place e) @ '': '' @ Message e"

definition newDecodeErr :: "string \<Rightarrow> string \<Rightarrow> string \<Rightarrow> DecodeErr" where
  "newDecodeErr parent children message =
     \<lparr>Place = \<lparr>Parent = parent, Children = children\<rparr>, Message = message\<rparr>"

definition newAttrDecodeErr :: "string \<Rightarrow> string \<Rightarrow> DecodeErr" where
  "newAttrDecodeErr children message = newDecodeErr ''attribute'' children message"

subsection \<open>Attribute types and their registry\<close>

type_synonym AttrType = "16 word"

definition AttrMappedAddress :: AttrType where "AttrMappedAddress = 0x0001"
definition AttrUsername :: AttrType where "AttrUsername = 0x0006"
definition AttrMessageIntegrity :: AttrType where "AttrMessageIntegrity = 0x0008"
definition AttrErrorCode :: AttrType where "AttrErrorCode = 0x0009"
definition AttrUnknownAttributes :: AttrType where "AttrUnknownAttributes = 0x000A"
definition AttrRealm :: AttrType where "AttrRealm = 0x0014"
definition AttrNonce :: AttrType where "AttrNonce = 0x0015"
definition AttrXORMappedAddress :: AttrType where "AttrXORMappedAddress = 0x0020"

definition AttrSoftware :: AttrType where "AttrSoftware = 0x8022"
definition AttrAlternateServer :: AttrType where "AttrAlternateServer = 0x8023"
definition AttrFingerprint :: AttrType where "AttrFingerprint = 0x8028"

definition AttrPriority :: AttrType where "AttrPriority = 0x0024"
definition AttrUseCandidate :: AttrType where "AttrUseCandidate = 0x0025"
definition AttrICEControlled :: AttrType where "AttrICEControlled = 0x8029"
definition AttrICEControlling :: AttrType where "AttrICEControlling = 0x802A"

definition AttrChannelNumber :: AttrType where "AttrChannelNumber = 0x000C"
definition AttrLifetime :: AttrType where "AttrLifetime = 0x000D"
definition AttrXORPeerAddress :: AttrType where "AttrXORPeerAddress = 0x0012"
definition AttrData :: AttrType where "AttrData = 0x0013"
definition AttrXORRelayedAddress :: AttrType where "AttrXORRelayedAddress = 0x0016"
definition AttrEvenPort :: AttrType where "AttrEvenPort = 0x0018"
definition AttrRequestedTransport :: AttrType where "AttrRequestedTransport = 0x0019"
definition AttrDontFragment :: AttrType where "AttrDontFragment = 0x001A"
definition AttrReservationToken :: AttrType where "AttrReservationToken = 0x0022"

definition AttrOrigin :: AttrType where "AttrOrigin = 0x802F"

definition AttrType_Value :: "AttrType \<Rightarrow> 16 word" where
  "AttrType_Value t = t"

text \<open>The map literal \<^verbatim>\<open>attrNames\<close>, in the order of the source. Its keys are distinct.\<close>

definition attrNames_entries :: "(AttrType \<times> string) list" where
  "attrNames_entries =
     [(AttrMappedAddress, ''MAPPED-ADDRESS''),
      (AttrUsername, ''USERNAME''),
      (AttrErrorCode, ''ERROR-CODE''),
      (AttrMessageIntegrity, ''MESSAGE-INTEGRITY''),
      (AttrUnknownAttributes, ''UNKNOWN-ATTRIBUTES''),
      (AttrRealm, ''REALM''),
      (AttrNonce, ''NONCE''),
      (AttrXORMappedAddress, ''XOR-MAPPED-ADDRESS''),
      (AttrSoftware, ''SOFTWARE''),
      (AttrAlternateServer, ''ALTERNATE-SERVER''),
      (AttrFingerprint, ''FINGERPRINT''),
      (AttrPriority, ''PRIORITY''),
      (AttrUseCandidate, ''USE-CANDIDATE''),
      (AttrICEControlled, ''ICE-CONTROLLED''),
      (AttrICEControlling, ''ICE-CONTROLLING''),
      (AttrChannelNumber, ''CHANNEL-NUMBER''),
      (AttrLifetime, ''LIFETIME''),
      (AttrXORPeerAddress, ''XOR-PEER-ADDRESS''),
      (AttrData, ''DATA''),
      (AttrXORRelayedAddress, ''XOR-RELAYED-ADDRESS''),
      (AttrEvenPort, ''EVEN-PORT''),
      (AttrRequestedTransport, ''REQUESTED-TRANSPORT''),
      (AttrDontFragment, ''DONT-FRAGMENT''),
      (AttrReservationToken, ''RESERVATION-TOKEN''),
      (AttrOrigin, ''ORIGIN'')]"

definition attrNames :: "AttrType \<rightharpoonup> string" where
  "attrNames = map_of attrNames_entries"

text \<open>
  \<^verbatim>\<open>strconv.FormatUint(u, 16)\<close> of the Go standard library: for a base that is a power of
  two its \<^verbatim>\<open>formatBits\<close> fills a buffer from the right,
  \<^verbatim>\<open>for u >= b { i--; a[i] = digits[uint(u)&m]; u >>= shift }; i--; a[i] = digits[uint(u)]\<close>
  with \<^verbatim>\<open>b = 16\<close>, \<^verbatim>\<open>m = 15\<close>, \<^verbatim>\<open>shift = 4\<close>. The buffer is the accumulator \<open>a\<close>; every
  index into \<open>digits\<close> is below 16.
\<close>

definition digits :: string where
  "digits = ''0123456789abcdefghijklmnopqrstuvwxyz''"

function formatBits :: "64 word \<Rightarrow> string \<Rightarrow> string" where
  "formatBits u a =
     (if 16 \<le> u then formatBits (drop_bit 4 u) (digits ! unat (u AND 15) # a)
      else digits ! unat u # a)"
  by pat_completeness auto
termination
proof (relation "measure (\<lambda>(u, a). unat u)")
  show "wf (measure (\<lambda>(u :: 64 word, a :: string). unat u))"
    by simp
next
  fix u :: "64 word" and a :: string
  assume "16 \<le> u"
  then have "16 \<le> unat u"
    by (simp add: word_le_nat_alt)
  then have "unat u div 16 < unat u"
    by simp
  then have "unat (drop_bit 4 u) < unat u"
    by (simp add: drop_bit_eq_div unat_div_distrib)
  then show "((drop_bit 4 u, digits ! unat (u AND 15) # a), (u, a))
      \<in> measure (\<lambda>(u, a). unat u)"
    by simp
qed

definition FormatUint_base16 :: "64 word \<Rightarrow> string" where
  "FormatUint_base16 u = formatBits u []"

definition AttrType_String :: "AttrType \<Rightarrow> string" where
  "AttrType_String t =
     (case attrNames t of
        None \<Rightarrow> ''0x'' @ FormatUint_base16 (ucast t)
      | Some s \<Rightarrow> s)"

subsection \<open>Raw attributes and attribute lists\<close>

record RawAttribute =
  Type :: AttrType
  Length :: "16 word"
  Value :: "byte list"

text \<open>The zero value \<^verbatim>\<open>RawAttribute{}\<close>.\<close>

definition RawAttribute_zero :: RawAttribute where
  "RawAttribute_zero = \<lparr>Type = 0, Length = 0, Value = []\<rparr>"

type_synonym Attributes = "RawAttribute list"

text \<open>
  \<^verbatim>\<open>for _, candidate := range a { if candidate.Type == t { return candidate, true } }\<close>
  followed by \<^verbatim>\<open>return RawAttribute{}, false\<close>.
\<close>

fun Attributes_Get :: "Attributes \<Rightarrow> AttrType \<Rightarrow> RawAttribute \<times> bool" where
  "Attributes_Get [] t = (RawAttribute_zero, False)"
| "Attributes_Get (candidate # rest) t =
     (if Type candidate = t then (candidate, True) else Attributes_Get rest t)"

text \<open>
  Indexing a slice panics in Go when the index is out of range; the model makes that a
  value.
\<close>

datatype panic = IndexOutOfRange

definition index :: "'a list \<Rightarrow> nat \<Rightarrow> panic + 'a" where
  "index xs i = (if i < length xs then Inr (xs ! i) else Inl IndexOutOfRange)"

text \<open>
  The loop \<^verbatim>\<open>for i, v := range a.Value { if b.Value[i] != v { return false } }\<close> of
  \<^verbatim>\<open>Equal\<close>, from index \<open>i\<close> on; the third argument is what is left of \<^verbatim>\<open>a.Value\<close>.
\<close>

fun Equal_range :: "byte list \<Rightarrow> nat \<Rightarrow> byte list \<Rightarrow> panic + bool" where
  "Equal_range bv i [] = Inr True"
| "Equal_range bv i (v # vs) =
     (case index bv i of
        Inl e \<Rightarrow> Inl e
      | Inr x \<Rightarrow> if x \<noteq> v then Inr False else Equal_range bv (Suc i) vs)"

definition RawAttribute_Equal :: "RawAttribute \<Rightarrow> RawAttribute \<Rightarrow> panic + bool" where
  "RawAttribute_Equal a b =
     (if Type a \<noteq> Type b then Inr False
      else if Length a \<noteq> Length b then Inr False
      else if length (Value b) \<noteq> length (Value a) then Inr False
      else Equal_range (Value b) 0 (Value a))"

subsection \<open>Messages\<close>

text \<open>
  Modelled from the spec: the type \<^verbatim>\<open>Message\<close> is declared outside errors.go. Section 6
  of the specification gives it an \<^verbatim>\<open>Attributes\<close> field holding the attribute list and a raw
  buffer field (\<^verbatim>\<open>Raw\<close> in the code); these are the two fields errors.go reads.
\<close>

record Message =
  Raw :: "byte list"
  Attributes :: Attributes

definition ErrAttributeNotFound :: Error where
  "ErrAttributeNotFound = Error ''Attribute not found''"

text \<open>The error result is \<open>None\<close> for Go's \<^verbatim>\<open>nil\<close> error.\<close>

definition Message_Get :: "Message \<Rightarrow> AttrType \<Rightarrow> byte list \<times> Error option" where
  "Message_Get m t =
     (case Attributes_Get (Attributes m) t of
        (v, ok) \<Rightarrow> if \<not> ok then ([], Some ErrAttributeNotFound) else (Value v, None))"

text \<open>
  \<^verbatim>\<open>AddTo\<close> calls \<^verbatim>\<open>m.Add(a.Type, m.Raw)\<close> and returns \<^verbatim>\<open>nil\<close>. The method \<^verbatim>\<open>Message.Add\<close> is
  declared outside errors.go and is a parameter here: it takes the message, a type and a
  byte slice and gives the updated message. \<^verbatim>\<open>AddTo\<close> returns the updated message together
  with its error result.
\<close>

definition RawAttribute_AddTo ::
  "(Message \<Rightarrow> AttrType \<Rightarrow> byte list \<Rightarrow> Message) \<Rightarrow> RawAttribute \<Rightarrow> Message
     \<Rightarrow> Message \<times> Error option" where
  "RawAttribute_AddTo Add a m = (Add m (Type a) (Raw m), None)"

text \<open>
  Modelled from the spec: \<^verbatim>\<open>Message.Add\<close> is missing from the source; the specification
  calls it the \<^verbatim>\<open>Add(type, bytes)\<close> mutator through which a payload is appended to the
  message under a type. The model appends one attribute of that type and payload to the
  attribute list, its \<^verbatim>\<open>Length\<close> being the payload's length (the well-formedness invariant of
  section 3), and leaves the raw buffer, whose encoding is outside this core, as it is.
\<close>

definition Message_Add :: "Message \<Rightarrow> AttrType \<Rightarrow> byte list \<Rightarrow> Message" where
  "Message_Add m t v =
     m\<lparr>Attributes := Attributes m @ [\<lparr>Type = t, Length = of_nat (length v), Value = v\<rparr>]\<rparr>"

subsection \<open>Reading hexadecimal, after the specification\<close>

text \<open>
  The specification's fallback form is \<^verbatim>\<open>"0x"\<close> followed by the code in lowercase
  hexadecimal, with no zero-padding beyond the value's natural representation. This is
  that notion, written from the specification's words and independent of \<open>formatBits\<close>:
  \<open>hex_value_from\<close> reads a string of the digits \<^verbatim>\<open>0-9\<close>, \<^verbatim>\<open>a-f\<close>, most significant first,
  and \<open>lowercase_hex_of s n\<close> says that \<open>s\<close> is a nonempty such string with value \<open>n\<close>
  which, unless it is the single digit \<^verbatim>\<open>0\<close>, does not start with \<^verbatim>\<open>0\<close>.
\<close>

definition hexdigit_value :: "char \<rightharpoonup> nat" where
  "hexdigit_value =
     map_of [(CHR ''0'', 0), (CHR ''1'', 1), (CHR ''2'', 2), (CHR ''3'', 3),
             (CHR ''4'', 4), (CHR ''5'', 5), (CHR ''6'', 6), (CHR ''7'', 7),
             (CHR ''8'', 8), (CHR ''9'', 9), (CHR ''a'', 10), (CHR ''b'', 11),
             (CHR ''c'', 12), (CHR ''d'', 13), (CHR ''e'', 14), (CHR ''f'', 15)]"

fun hex_value_from :: "nat \<Rightarrow> string \<Rightarrow> nat option" where
  "hex_value_from n [] = Some n"
| "hex_value_from n (c # cs) =
     (case hexdigit_value c of None \<Rightarrow> None | Some d \<Rightarrow> hex_value_from (16 * n + d) cs)"

definition lowercase_hex_of :: "string \<Rightarrow> nat \<Rightarrow> bool" where
  "lowercase_hex_of s n =
     (s \<noteq> [] \<and> (s = ''0'' \<or> hd s \<noteq> CHR ''0'') \<and> hex_value_from 0 s = Some n)"

section \<open>Auxiliary facts\<close>

lemmas Attr_defs =
  AttrMappedAddress_def AttrUsername_def AttrMessageIntegrity_def AttrErrorCode_def
  AttrUnknownAttributes_def AttrRealm_def AttrNonce_def AttrXORMappedAddress_def
  AttrSoftware_def AttrAlternateServer_def AttrFingerprint_def AttrPriority_def
  AttrUseCandidate_def AttrICEControlled_def AttrICEControlling_def AttrChannelNumber_def
  AttrLifetime_def AttrXORPeerAddress_def AttrData_def AttrXORRelayedAddress_def
  AttrEvenPort_def AttrRequestedTransport_def AttrDontFragment_def AttrReservationToken_def
  AttrOrigin_def

declare formatBits.simps [simp del]

subsection \<open>Hexadecimal formatting\<close>

lemma hexdigit_value_digits_upt: "\<forall>n \<in> set [0..<16]. hexdigit_value (digits ! n) = Some n"
  by code_simp

lemma hexdigit_value_digits: "n < 16 \<Longrightarrow> hexdigit_value (digits ! n) = Some n"
  using hexdigit_value_digits_upt by simp

lemma digits_nonzero_upt: "\<forall>n \<in> set [1..<16]. digits ! n \<noteq> CHR ''0''"
  by code_simp

lemma digits_nonzero: "0 < n \<Longrightarrow> n < 16 \<Longrightarrow> digits ! n \<noteq> CHR ''0''"
  using digits_nonzero_upt by simp

lemma unat_low4: "unat (u AND 15 :: 64 word) = unat u mod 16"
proof -
  have "u AND 15 = take_bit 4 u"
    by (simp add: take_bit_eq_mask mask_eq_exp_minus_1)
  then have "u AND 15 = u mod 16"
    by (simp add: take_bit_eq_mod)
  then show ?thesis
    by (simp add: unat_mod_distrib)
qed

lemma unat_shift4: "unat (drop_bit 4 u :: 64 word) = unat u div 16"
  by (simp add: drop_bit_eq_div unat_div_distrib)

lemma formatBits_acc: "formatBits u a = formatBits u [] @ a"
proof (induction "unat u" arbitrary: u a rule: less_induct)
  case less
  show ?case
  proof (cases "16 \<le> u")
    case True
    then have "16 \<le> unat u" by (simp add: word_le_nat_alt)
    then have lt: "unat (drop_bit 4 u) < unat u" by (simp add: unat_shift4)
    let ?d = "digits ! unat (u AND 15)"
    have "formatBits u a = formatBits (drop_bit 4 u) (?d # a)"
      using True by (subst formatBits.simps) simp
    also have "\<dots> = formatBits (drop_bit 4 u) [] @ (?d # a)"
      using lt by (rule less)
    also have "\<dots> = (formatBits (drop_bit 4 u) [] @ [?d]) @ a"
      by simp
    also have "formatBits (drop_bit 4 u) [] @ [?d] = formatBits (drop_bit 4 u) [?d]"
      using less [OF lt, of "[?d]"] by simp
    also have "\<dots> = formatBits u []"
      using True by (subst (2) formatBits.simps) simp
    finally show ?thesis .
  next
    case False
    then show ?thesis by (simp add: formatBits.simps)
  qed
qed

lemma formatBits_step:
  "16 \<le> u \<Longrightarrow> formatBits u [] = formatBits (drop_bit 4 u) [] @ [digits ! unat (u AND 15)]"
  by (subst formatBits.simps, subst formatBits_acc) simp

lemma formatBits_small: "\<not> 16 \<le> u \<Longrightarrow> formatBits u [] = [digits ! unat u]"
  by (subst formatBits.simps) simp

lemma hex_value_from_append:
  "hex_value_from n (xs @ ys) =
     (case hex_value_from n xs of None \<Rightarrow> None | Some m \<Rightarrow> hex_value_from m ys)"
  by (induction xs arbitrary: n) (auto split: option.splits)

lemma hex_value_formatBits: "hex_value_from 0 (formatBits u []) = Some (unat u)"
proof (induction "unat u" arbitrary: u rule: less_induct)
  case less
  show ?case
  proof (cases "16 \<le> u")
    case True
    then have "16 \<le> unat u" by (simp add: word_le_nat_alt)
    then have lt: "unat (drop_bit 4 u) < unat u" by (simp add: unat_shift4)
    have ih: "hex_value_from 0 (formatBits (drop_bit 4 u) []) = Some (unat u div 16)"
      using less [OF lt] by (simp add: unat_shift4)
    have d: "hexdigit_value (digits ! unat (u AND 15)) = Some (unat u mod 16)"
      by (simp add: unat_low4 hexdigit_value_digits)
    show ?thesis
      using True ih d by (simp add: formatBits_step hex_value_from_append)
  next
    case False
    then have "unat u < 16" by (simp add: word_le_nat_alt)
    then show ?thesis
      using False by (simp add: formatBits_small hexdigit_value_digits)
  qed
qed

lemma formatBits_nonempty: "formatBits u [] \<noteq> []"
  by (cases "16 \<le> u") (simp_all add: formatBits_step formatBits_small)

lemma formatBits_zero: "formatBits 0 [] = ''0''"
  by (simp add: formatBits_small digits_def)

lemma formatBits_hd: "u \<noteq> 0 \<Longrightarrow> hd (formatBits u []) \<noteq> CHR ''0''"
proof (induction "unat u" arbitrary: u rule: less_induct)
  case less
  show ?case
  proof (cases "16 \<le> u")
    case True
    then have ge: "16 \<le> unat u" by (simp add: word_le_nat_alt)
    then have lt: "unat (drop_bit 4 u) < unat u" by (simp add: unat_shift4)
    from ge have "unat (drop_bit 4 u) \<noteq> 0" by (simp add: unat_shift4)
    then have "drop_bit 4 u \<noteq> 0" by auto
    with lt have "hd (formatBits (drop_bit 4 u) []) \<noteq> CHR ''0''" by (rule less)
    then show ?thesis
      using True by (simp add: formatBits_step formatBits_nonempty)
  next
    case False
    then have "unat u < 16" by (simp add: word_le_nat_alt)
    moreover from less.prems have "0 < unat u" by (simp add: unat_gt_0)
    ultimately show ?thesis
      using False by (simp add: formatBits_small digits_nonzero)
  qed
qed

lemma FormatUint_base16_lowercase_hex: "lowercase_hex_of (FormatUint_base16 u) (unat u)"
proof (cases "u = 0")
  case True
  then show ?thesis
    by (simp add: lowercase_hex_of_def FormatUint_base16_def formatBits_zero hexdigit_value_def)
next
  case False
  then show ?thesis
    by (simp add: lowercase_hex_of_def FormatUint_base16_def formatBits_nonempty formatBits_hd
        hex_value_formatBits)
qed

lemma unat_ucast_16_64: "unat (ucast (t :: 16 word) :: 64 word) = unat t"
proof -
  have "unat t < 2 ^ 16"
    using unsigned_less [of t, where 'a = nat] by simp
  then show ?thesis
    by (simp add: unsigned_ucast_eq take_bit_nat_eq_self_iff)
qed

subsection \<open>The comparison loop and the lookup loop\<close>

lemma Equal_range_drop:
  "length bv = i + length vs \<Longrightarrow> Equal_range bv i vs = Inr (drop i bv = vs)"
proof (induction vs arbitrary: i)
  case Nil
  then show ?case by simp
next
  case (Cons v vs)
  from Cons.prems have lt: "i < length bv" by simp
  from Cons.prems have "length bv = Suc i + length vs" by simp
  then have ih: "Equal_range bv (Suc i) vs = Inr (drop (Suc i) bv = vs)"
    by (rule Cons.IH)
  from lt have d: "drop i bv = bv ! i # drop (Suc i) bv"
    by (simp add: Cons_nth_drop_Suc)
  show ?case
    using lt ih d by (auto simp: index_def)
qed

lemma RawAttribute_Equal_eq:
  "RawAttribute_Equal a b =
     Inr (Type a = Type b \<and> Length a = Length b \<and> Value a = Value b)"
proof (cases "length (Value b) = length (Value a)")
  case True
  then have "Equal_range (Value b) 0 (Value a) = Inr (Value b = Value a)"
    using Equal_range_drop [of "Value b" 0 "Value a"] by simp
  then show ?thesis
    by (auto simp: RawAttribute_Equal_def)
next
  case False
  then show ?thesis
    by (auto simp: RawAttribute_Equal_def)
qed

lemma Attributes_Get_absent:
  "(\<forall>c \<in> set as. Type c \<noteq> t) \<Longrightarrow> Attributes_Get as t = (RawAttribute_zero, False)"
  by (induction as) auto

lemma Attributes_Get_first:
  "i < length as \<Longrightarrow> Type (as ! i) = t \<Longrightarrow> (\<forall>k < i. Type (as ! k) \<noteq> t)
     \<Longrightarrow> Attributes_Get as t = (as ! i, True)"
proof (induction as arbitrary: i)
  case Nil
  then show ?case by simp
next
  case (Cons c cs)
  show ?case
  proof (cases i)
    case 0
    with Cons.prems show ?thesis by simp
  next
    case (Suc j)
    with Cons.prems have c: "Type c \<noteq> t" by auto
    from Suc Cons.prems have "\<forall>k < j. Type (cs ! k) \<noteq> t" by auto
    with Suc Cons.prems have "Attributes_Get cs t = (cs ! j, True)"
      by (intro Cons.IH) auto
    with c Suc show ?thesis by simp
  qed
qed

lemma Attributes_Get_present:
  "\<exists>c \<in> set as. Type c = t \<Longrightarrow>
   \<exists>i < length as. Type (as ! i) = t \<and> (\<forall>k < i. Type (as ! k) \<noteq> t)
      \<and> Attributes_Get as t = (as ! i, True)"
proof (induction as)
  case Nil
  then show ?case by simp
next
  case (Cons c cs)
  show ?case
  proof (cases "Type c = t")
    case True
    then show ?thesis by (intro exI [of _ 0]) simp
  next
    case False
    with Cons.prems have "\<exists>c \<in> set cs. Type c = t" by auto
    then obtain i where i: "i < length cs" "Type (cs ! i) = t"
      "\<forall>k < i. Type (cs ! k) \<noteq> t" "Attributes_Get cs t = (cs ! i, True)"
      using Cons.IH by blast
    have "\<forall>k < Suc i. Type ((c # cs) ! k) \<noteq> t"
      using False i(3) by (auto simp: less_Suc_eq_0_disj)
    with i False show ?thesis
      by (intro exI [of _ "Suc i"]) simp
  qed
qed

lemma Attributes_Get_found_iff:
  "snd (Attributes_Get as t) \<longleftrightarrow> (\<exists>c \<in> set as. Type c = t)"
  by (induction as) auto

lemma distinct_attrNames_entries: "distinct (map fst attrNames_entries)"
  by (simp add: attrNames_entries_def Attr_defs)

lemma attrNames_Some_iff: "attrNames t = Some s \<longleftrightarrow> (t, s) \<in> set attrNames_entries"
  using distinct_attrNames_entries by (simp add: attrNames_def)

lemma attrNames_None_iff: "attrNames t = None \<longleftrightarrow> t \<notin> fst ` set attrNames_entries"
  by (simp add: attrNames_def map_of_eq_None_iff)

lemma DecodeErrPlace_String_cookie:
  "DecodeErrPlace_String \<lparr>Parent = ''message'', Children = ''cookie''\<rparr> = ''message/cookie''"
  by (simp add: DecodeErrPlace_String_def)

lemma RawAttribute_AddTo_argument:
  "fst (RawAttribute_AddTo Add a m) = Add m (Type a) (Raw m)"
  by (simp add: RawAttribute_AddTo_def)

section \<open>The claims\<close>

text \<open>
  C1. The claim: for every attribute \<open>a\<close> and message \<open>m\<close>, \<^verbatim>\<open>a.AddTo(m)\<close> adds \<open>a\<close>'s own
  \<^verbatim>\<open>Value\<close> to \<open>m\<close> under \<open>a\<close>'s \<^verbatim>\<open>Type\<close>, not a buffer owned by the message. The code passes
  \<^verbatim>\<open>m.Raw\<close> to \<^verbatim>\<open>Add\<close>: for the USERNAME attribute with payload \<^verbatim>\<open>"bob"\<close> and a message whose
  raw buffer holds the four bytes \<^verbatim>\<open>00 01 00 00\<close>, the attribute that arrives in the message
  carries those four bytes, and the payload \<^verbatim>\<open>"bob"\<close> is never read.
\<close>

theorem RawAttribute_AddTo_adds_message_Raw:
  "Attributes (fst (RawAttribute_AddTo Message_Add
       \<lparr>Type = AttrUsername, Length = 3, Value = [0x62, 0x6F, 0x62]\<rparr>
       \<lparr>Raw = [0x00, 0x01, 0x00, 0x00], Attributes = []\<rparr>))
     = [\<lparr>Type = AttrUsername, Length = 4, Value = [0x00, 0x01, 0x00, 0x00]\<rparr>]"
  by (simp add: RawAttribute_AddTo_def Message_Add_def)

text \<open>
  C2. \<^verbatim>\<open>a.Equal(b)\<close> returns false if the types differ; false if the \<^verbatim>\<open>Length\<close> fields differ,
  also when the \<^verbatim>\<open>Value\<close> bytes are identical; false if the \<^verbatim>\<open>Value\<close> byte sequences differ in
  length or in some byte; and true otherwise. It never indexes \<^verbatim>\<open>b.Value\<close> out of range.
\<close>

theorem RawAttribute_Equal_cases:
  "(Type a \<noteq> Type b \<longrightarrow> RawAttribute_Equal a b = Inr False) \<and>
   (Length a \<noteq> Length b \<longrightarrow> RawAttribute_Equal a b = Inr False) \<and>
   (length (Value a) \<noteq> length (Value b) \<or> (\<exists>i < length (Value a). Value a ! i \<noteq> Value b ! i)
      \<longrightarrow> RawAttribute_Equal a b = Inr False) \<and>
   (Type a = Type b \<and> Length a = Length b \<and> length (Value a) = length (Value b)
      \<and> (\<forall>i < length (Value a). Value a ! i = Value b ! i)
      \<longrightarrow> RawAttribute_Equal a b = Inr True)"
proof -
  have "Value a = Value b \<longleftrightarrow>
      length (Value a) = length (Value b) \<and> (\<forall>i < length (Value a). Value a ! i = Value b ! i)"
    by (rule list_eq_iff_nth_eq)
  then show ?thesis
    by (auto simp: RawAttribute_Equal_eq)
qed

theorem RawAttribute_Equal_cases_witness:
  "RawAttribute_Equal \<lparr>Type = 6, Length = 3, Value = [0x62, 0x6F, 0x62]\<rparr>
                      \<lparr>Type = 0x14, Length = 3, Value = [0x62, 0x6F, 0x62]\<rparr> = Inr False \<and>
   RawAttribute_Equal \<lparr>Type = 6, Length = 3, Value = [0x62, 0x6F, 0x62]\<rparr>
                      \<lparr>Type = 6, Length = 4, Value = [0x62, 0x6F, 0x62]\<rparr> = Inr False \<and>
   RawAttribute_Equal \<lparr>Type = 6, Length = 3, Value = [0x62, 0x6F, 0x62]\<rparr>
                      \<lparr>Type = 6, Length = 3, Value = [0x62, 0x6F]\<rparr> = Inr False \<and>
   RawAttribute_Equal \<lparr>Type = 6, Length = 3, Value = [0x62, 0x6F, 0x62]\<rparr>
                      \<lparr>Type = 6, Length = 3, Value = [0x62, 0x6F, 0x63]\<rparr> = Inr False \<and>
   RawAttribute_Equal \<lparr>Type = 6, Length = 3, Value = [0x62, 0x6F, 0x62]\<rparr>
                      \<lparr>Type = 6, Length = 3, Value = [0x62, 0x6F, 0x62]\<rparr> = Inr True"
proof (intro conjI)
  let ?a = "\<lparr>Type = 6, Length = 3, Value = [0x62, 0x6F, 0x62 :: byte]\<rparr>"
  show "RawAttribute_Equal ?a \<lparr>Type = 0x14, Length = 3, Value = [0x62, 0x6F, 0x62]\<rparr> = Inr False"
    using RawAttribute_Equal_cases
      [of ?a "\<lparr>Type = 0x14, Length = 3, Value = [0x62, 0x6F, 0x62]\<rparr>"]
    by simp
  show "RawAttribute_Equal ?a \<lparr>Type = 6, Length = 4, Value = [0x62, 0x6F, 0x62]\<rparr> = Inr False"
    using RawAttribute_Equal_cases
      [of ?a "\<lparr>Type = 6, Length = 4, Value = [0x62, 0x6F, 0x62]\<rparr>"]
    by simp
  show "RawAttribute_Equal ?a \<lparr>Type = 6, Length = 3, Value = [0x62, 0x6F]\<rparr> = Inr False"
    using RawAttribute_Equal_cases [of ?a "\<lparr>Type = 6, Length = 3, Value = [0x62, 0x6F]\<rparr>"]
    by simp
  have "\<exists>i < length [0x62, 0x6F, 0x62 :: byte]. [0x62, 0x6F, 0x62 :: byte] ! i \<noteq> [0x62, 0x6F, 0x63] ! i"
    by (intro exI [of _ 2]) simp
  then show
    "RawAttribute_Equal ?a \<lparr>Type = 6, Length = 3, Value = [0x62, 0x6F, 0x63]\<rparr> = Inr False"
    using RawAttribute_Equal_cases
      [of ?a "\<lparr>Type = 6, Length = 3, Value = [0x62, 0x6F, 0x63]\<rparr>"]
    by simp
  show "RawAttribute_Equal ?a ?a = Inr True"
    using RawAttribute_Equal_cases [of ?a ?a] by simp
qed

text \<open>
  C3. \<^verbatim>\<open>Get(t)\<close> scans the list in insertion order and returns the first element whose
  \<^verbatim>\<open>Type\<close> is \<open>t\<close>, with \<^verbatim>\<open>true\<close>: whenever some element has type \<open>t\<close>, the result is the
  element at the least such position; in particular, of two attributes of type \<open>t\<close> at
  positions \<open>i < j\<close>, \<open>i\<close> being the first position of that type, the one at \<open>i\<close> is
  returned. If no element has type \<open>t\<close>, the result is the zero-valued attribute and
  \<^verbatim>\<open>false\<close>.
\<close>

theorem Attributes_Get_first_match:
  "((\<exists>c \<in> set as. Type c = t) \<longrightarrow>
      (\<exists>i < length as. Type (as ! i) = t \<and> (\<forall>k < i. Type (as ! k) \<noteq> t)
         \<and> Attributes_Get as t = (as ! i, True))) \<and>
   (i < j \<and> j < length as \<and> Type (as ! i) = t \<and> Type (as ! j) = t
      \<and> (\<forall>k < i. Type (as ! k) \<noteq> t)
      \<longrightarrow> Attributes_Get as t = (as ! i, True)) \<and>
   ((\<forall>c \<in> set as. Type c \<noteq> t) \<longrightarrow> Attributes_Get as t = (RawAttribute_zero, False))"
proof (intro conjI impI)
  assume "\<exists>c \<in> set as. Type c = t"
  then show "\<exists>i < length as. Type (as ! i) = t \<and> (\<forall>k < i. Type (as ! k) \<noteq> t)
      \<and> Attributes_Get as t = (as ! i, True)"
    by (rule Attributes_Get_present)
next
  assume h: "i < j \<and> j < length as \<and> Type (as ! i) = t \<and> Type (as ! j) = t
      \<and> (\<forall>k < i. Type (as ! k) \<noteq> t)"
  then have "i < length as" by simp
  with h show "Attributes_Get as t = (as ! i, True)"
    by (intro Attributes_Get_first) simp_all
next
  assume "\<forall>c \<in> set as. Type c \<noteq> t"
  then show "Attributes_Get as t = (RawAttribute_zero, False)"
    by (rule Attributes_Get_absent)
qed

theorem Attributes_Get_first_match_witness:
  "Attributes_Get
     [\<lparr>Type = 0x8022, Length = 1, Value = [0x73]\<rparr>,
      \<lparr>Type = 6, Length = 3, Value = [0x62, 0x6F, 0x62]\<rparr>,
      \<lparr>Type = 6, Length = 2, Value = [0x61, 0x6C]\<rparr>] 6
     = (\<lparr>Type = 6, Length = 3, Value = [0x62, 0x6F, 0x62]\<rparr>, True) \<and>
   Attributes_Get
     [\<lparr>Type = 0x8022, Length = 1, Value = [0x73]\<rparr>,
      \<lparr>Type = 6, Length = 3, Value = [0x62, 0x6F, 0x62]\<rparr>,
      \<lparr>Type = 6, Length = 2, Value = [0x61, 0x6C]\<rparr>] 0x14
     = (RawAttribute_zero, False)"
proof -
  let ?as = "[\<lparr>Type = 0x8022, Length = 1, Value = [0x73 :: byte]\<rparr>,
      \<lparr>Type = 6, Length = 3, Value = [0x62, 0x6F, 0x62]\<rparr>,
      \<lparr>Type = 6, Length = 2, Value = [0x61, 0x6C]\<rparr>]"
  have first: "\<forall>k < Suc 0. Type (?as ! k) \<noteq> 6"
    by simp
  have "Attributes_Get ?as 6 = (?as ! Suc 0, True)"
    using Attributes_Get_first_match [of ?as 6 "Suc 0" "Suc (Suc 0)"] first
    by simp
  moreover have "Attributes_Get ?as 0x14 = (RawAttribute_zero, False)"
    using Attributes_Get_first_match [of ?as "0x14" 0 0] by simp
  ultimately show ?thesis by simp
qed

text \<open>
  C4. \<^verbatim>\<open>Message.Get(t)\<close> returns the sentinel constant \<^verbatim>\<open>ErrAttributeNotFound\<close> (a value of the
  string type \<^verbatim>\<open>Error\<close>, compared by equality) exactly when the message's attribute list has
  no attribute of type \<open>t\<close>, and then with \<^verbatim>\<open>nil\<close> bytes; when an attribute of type \<open>t\<close> is
  present, it returns the \<^verbatim>\<open>Value\<close> of the first such attribute together with a \<^verbatim>\<open>nil\<close> error.
\<close>

theorem Message_Get_sentinel:
  "(snd (Message_Get m t) = Some ErrAttributeNotFound
      \<longleftrightarrow> (\<forall>c \<in> set (Attributes m). Type c \<noteq> t)) \<and>
   ((\<forall>c \<in> set (Attributes m). Type c \<noteq> t)
      \<longrightarrow> Message_Get m t = ([], Some ErrAttributeNotFound)) \<and>
   (i < length (Attributes m) \<and> Type (Attributes m ! i) = t
      \<and> (\<forall>k < i. Type (Attributes m ! k) \<noteq> t)
      \<longrightarrow> Message_Get m t = (Value (Attributes m ! i), None)) \<and>
   ((\<exists>c \<in> set (Attributes m). Type c = t)
      \<longrightarrow> (\<exists>c \<in> set (Attributes m). Type c = t \<and> Message_Get m t = (Value c, None))) \<and>
   Error_Error ErrAttributeNotFound = ''Attribute not found''"
proof (intro conjI impI)
  show "snd (Message_Get m t) = Some ErrAttributeNotFound
      \<longleftrightarrow> (\<forall>c \<in> set (Attributes m). Type c \<noteq> t)"
    using Attributes_Get_found_iff [of "Attributes m" t]
    by (auto simp: Message_Get_def split: prod.splits)
next
  assume "\<forall>c \<in> set (Attributes m). Type c \<noteq> t"
  then show "Message_Get m t = ([], Some ErrAttributeNotFound)"
    by (simp add: Message_Get_def Attributes_Get_absent)
next
  assume "i < length (Attributes m) \<and> Type (Attributes m ! i) = t
      \<and> (\<forall>k < i. Type (Attributes m ! k) \<noteq> t)"
  then have "Attributes_Get (Attributes m) t = (Attributes m ! i, True)"
    by (intro Attributes_Get_first) simp_all
  then show "Message_Get m t = (Value (Attributes m ! i), None)"
    by (simp add: Message_Get_def)
next
  assume "\<exists>c \<in> set (Attributes m). Type c = t"
  then obtain i where i: "i < length (Attributes m)" "Type (Attributes m ! i) = t"
    "Attributes_Get (Attributes m) t = (Attributes m ! i, True)"
    using Attributes_Get_present [of "Attributes m" t] by blast
  from i(3) have "Message_Get m t = (Value (Attributes m ! i), None)"
    by (simp add: Message_Get_def)
  with i(1,2) show "\<exists>c \<in> set (Attributes m). Type c = t \<and> Message_Get m t = (Value c, None)"
    by (intro bexI [of _ "Attributes m ! i"]) simp_all
next
  show "Error_Error ErrAttributeNotFound = ''Attribute not found''"
    by (simp add: ErrAttributeNotFound_def)
qed

theorem Message_Get_sentinel_witness:
  "Message_Get \<lparr>Raw = [], Attributes = [\<lparr>Type = AttrSoftware, Length = 1, Value = [0x73]\<rparr>]\<rparr>
     AttrUsername = ([], Some ErrAttributeNotFound) \<and>
   Message_Get
     \<lparr>Raw = [], Attributes = [\<lparr>Type = AttrUsername, Length = 3, Value = [0x62, 0x6F, 0x62]\<rparr>]\<rparr>
     AttrUsername = ([0x62, 0x6F, 0x62], None)"
proof -
  let ?m1 = "\<lparr>Raw = [], Attributes = [\<lparr>Type = AttrSoftware, Length = 1, Value = [0x73]\<rparr>]\<rparr>"
  let ?m2 = "\<lparr>Raw = [],
      Attributes = [\<lparr>Type = AttrUsername, Length = 3, Value = [0x62, 0x6F, 0x62]\<rparr>]\<rparr>"
  have "Message_Get ?m1 AttrUsername = ([], Some ErrAttributeNotFound)"
    using Message_Get_sentinel [of ?m1 AttrUsername 0]
    by (simp add: AttrSoftware_def AttrUsername_def)
  moreover have "Message_Get ?m2 AttrUsername = ([0x62, 0x6F, 0x62], None)"
    using Message_Get_sentinel [of ?m2 AttrUsername 0]
    by simp
  ultimately show ?thesis by simp
qed

text \<open>
  C5. \<^verbatim>\<open>AttrType.String()\<close> is a total function of the 16-bit code (the loop of the
  hexadecimal formatter terminates): for a code of the registry it returns the registered
  name, and for any other code it returns \<^verbatim>\<open>"0x"\<close> followed by the code's lowercase
  hexadecimal representation without zero-padding. So \<^verbatim>\<open>AttrType(0x8022).String()\<close> is
  \<^verbatim>\<open>"SOFTWARE"\<close> and \<^verbatim>\<open>AttrType(0x1234).String()\<close> is \<^verbatim>\<open>"0x1234"\<close>.
\<close>

theorem AttrType_String_total:
  "((t, s) \<in> set attrNames_entries \<longrightarrow> AttrType_String t = s) \<and>
   (t \<notin> fst ` set attrNames_entries
      \<longrightarrow> (\<exists>h. AttrType_String t = ''0x'' @ h \<and> lowercase_hex_of h (unat t))) \<and>
   AttrType_String 0x8022 = ''SOFTWARE'' \<and>
   AttrType_String 0x1234 = ''0x1234''"
proof (intro conjI impI)
  assume "(t, s) \<in> set attrNames_entries"
  then have "attrNames t = Some s"
    by (simp add: attrNames_Some_iff)
  then show "AttrType_String t = s"
    by (simp add: AttrType_String_def)
next
  assume "t \<notin> fst ` set attrNames_entries"
  then have "attrNames t = None"
    by (simp add: attrNames_None_iff)
  then have "AttrType_String t = ''0x'' @ FormatUint_base16 (ucast t)"
    by (simp add: AttrType_String_def)
  moreover have "lowercase_hex_of (FormatUint_base16 (ucast t)) (unat t)"
    using FormatUint_base16_lowercase_hex [of "ucast t"] by (simp add: unat_ucast_16_64)
  ultimately show "\<exists>h. AttrType_String t = ''0x'' @ h \<and> lowercase_hex_of h (unat t)"
    by blast
next
  show "AttrType_String 0x8022 = ''SOFTWARE''"
    by code_simp
next
  show "AttrType_String 0x1234 = ''0x1234''"
    by code_simp
qed

theorem AttrType_String_total_witness:
  "(AttrSoftware, ''SOFTWARE'') \<in> set attrNames_entries \<and>
   AttrType_String AttrSoftware = ''SOFTWARE'' \<and>
   0x1234 \<notin> fst ` set attrNames_entries \<and>
   (\<exists>h. AttrType_String 0x1234 = ''0x'' @ h \<and> lowercase_hex_of h (unat (0x1234 :: AttrType)))"
proof -
  have 1: "(AttrSoftware, ''SOFTWARE'') \<in> set attrNames_entries"
    by (simp add: attrNames_entries_def)
  have 2: "0x1234 \<notin> fst ` set attrNames_entries"
    by (simp add: attrNames_entries_def Attr_defs)
  show ?thesis
    using 1 2 AttrType_String_total [of AttrSoftware "''SOFTWARE''"]
      AttrType_String_total [of "0x1234" "[]"]
    by blast
qed

text \<open>
  C6. \<^verbatim>\<open>e.IsInvalidCookie()\<close> is true if and only if \<^verbatim>\<open>e.Place\<close> is the place with parent
  \<^verbatim>\<open>"message"\<close> and children \<^verbatim>\<open>"cookie"\<close>; for a place that differs from it in either field
  the result is false.
\<close>

theorem DecodeErr_IsInvalidCookie_iff:
  "(DecodeErr_IsInvalidCookie e
      \<longleftrightarrow> Place e = \<lparr>Parent = ''message'', Children = ''cookie''\<rparr>) \<and>
   (DecodeErr_IsInvalidCookie e
      \<longleftrightarrow> Parent (Place e) = ''message'' \<and> Children (Place e) = ''cookie'')"
  by (cases "Place e") (simp add: DecodeErr_IsInvalidCookie_def)

text \<open>
  C7. \<^verbatim>\<open>p.String()\<close> is \<^verbatim>\<open>p.Parent + "/" + p.Children\<close>, and \<^verbatim>\<open>e.Error()\<close> is
  \<^verbatim>\<open>"BadFormat for " + e.Place.Parent + "/" + e.Place.Children + ": " + e.Message\<close>.
\<close>

theorem DecodeErr_rendering:
  "DecodeErrPlace_String p = Parent p @ ''/'' @ Children p \<and>
   DecodeErr_Error e =
     ''BadFormat for '' @ Parent (Place e) @ ''/'' @ Children (Place e) @ '': '' @ Message e"
  by (simp add: DecodeErr_Error_def DecodeErrPlace_String_def)

text \<open>
  C8. \<^verbatim>\<open>Equal\<close> is reflexive, \<^verbatim>\<open>a.Equal(a)\<close> is true, and symmetric, \<^verbatim>\<open>a.Equal(b)\<close> and
  \<^verbatim>\<open>b.Equal(a)\<close> give the same result.
\<close>

theorem RawAttribute_Equal_refl_sym:
  "RawAttribute_Equal a a = Inr True \<and> RawAttribute_Equal a b = RawAttribute_Equal b a"
  by (auto simp: RawAttribute_Equal_eq)

text \<open>
  C9. \<^verbatim>\<open>a.AddTo(m)\<close> returns a \<^verbatim>\<open>nil\<close> error for every attribute and every message, whatever
  \<^verbatim>\<open>Add\<close> does to the message.
\<close>

theorem RawAttribute_AddTo_nil_error:
  "snd (RawAttribute_AddTo Add a m) = None"
  by (simp add: RawAttribute_AddTo_def)

text \<open>
  C10. \<^verbatim>\<open>e.IsPlace(p)\<close> is true exactly when \<^verbatim>\<open>e.IsPlaceParent(p.Parent)\<close> and
  \<^verbatim>\<open>e.IsPlaceChildren(p.Children)\<close> are both true.
\<close>

theorem DecodeErr_IsPlace_decomposes:
  "DecodeErr_IsPlace e p
     \<longleftrightarrow> DecodeErr_IsPlaceParent e (Parent p) \<and> DecodeErr_IsPlaceChildren e (Children p)"
  by (cases "Place e", cases p)
    (simp add: DecodeErr_IsPlace_def DecodeErr_IsPlaceParent_def DecodeErr_IsPlaceChildren_def)

end
